theory Spec2Isabelle
  imports Complex_Main "HOL-Library.Stream"
begin

section \<open>Errors\<close>

text \<open>
  The exceptions the code of \<^verbatim>\<open>GPinv/likelihoods.py\<close> can raise. \<open>NotImplementedError\<close> is
  raised by the base class; \<open>AttributeError\<close> is Python's error for reading an attribute
  that an object or module does not have; \<open>TypeError\<close> is Python's error for a call with
  the wrong number of arguments; \<open>ValueError\<close> stands for the error with which TensorFlow
  rejects operands whose shapes do not fit an operation (the payload names the operation).
\<close>

datatype error =
    NotImplementedError
  | AttributeError string
  | TypeError
  | ValueError string

definition bnd :: "error + 'a \<Rightarrow> ('a \<Rightarrow> error + 'b) \<Rightarrow> error + 'b" where
  "bnd m f = (case m of Inl e \<Rightarrow> Inl e | Inr x \<Rightarrow> f x)"

section \<open>Tensors\<close>

text \<open>
  A tensor is its shape and its elements in row-major order. Elements are real numbers:
  the rounding of float64 is outside this model.
\<close>

record tensor =
  shape :: "nat list"
  vals :: "real list"

definition indices :: "nat list \<Rightarrow> nat list list" where
  "indices sh = product_lists (map (\<lambda>n. [0..<n]) sh)"

fun offset :: "nat list \<Rightarrow> nat list \<Rightarrow> nat" where
  "offset (n # sh) (i # idx) = i * prod_list sh + offset sh idx"
| "offset _ _ = 0"

definition valid :: "nat list \<Rightarrow> nat list \<Rightarrow> bool" where
  "valid sh idx \<longleftrightarrow> list_all2 (\<lambda>i n. i < n) idx sh"

definition get :: "tensor \<Rightarrow> nat list \<Rightarrow> real" where
  "get t idx = vals t ! offset (shape t) idx"

definition tensor_of :: "nat list \<Rightarrow> (nat list \<Rightarrow> real) \<Rightarrow> tensor" where
  "tensor_of sh f = \<lparr>shape = sh, vals = map f (indices sh)\<rparr>"

definition wf_tensor :: "tensor \<Rightarrow> bool" where
  "wf_tensor t \<longleftrightarrow> length (vals t) = prod_list (shape t)"

definition scalar :: "real \<Rightarrow> tensor" where
  "scalar r = tensor_of [] (\<lambda>_. r)"

section \<open>The TensorFlow operations the code calls\<close>

text \<open>
  \<open>tf.transpose(t, perm)\<close>: dimension \<open>k\<close> of the result is dimension \<open>perm ! k\<close> of \<open>t\<close>;
  \<open>perm\<close> must be a permutation of the dimensions of \<open>t\<close>. Without \<open>perm\<close> the dimensions
  are reversed.
\<close>

definition pos_of :: "nat \<Rightarrow> nat list \<Rightarrow> nat" where
  "pos_of d perm = length (takeWhile (\<lambda>p. p \<noteq> d) perm)"

definition tf_transpose :: "tensor \<Rightarrow> nat list \<Rightarrow> error + tensor" where
  "tf_transpose t perm =
     (if sort perm = [0..<length (shape t)]
      then Inr (tensor_of (map (\<lambda>p. shape t ! p) perm)
                  (\<lambda>idx. get t (map (\<lambda>d. idx ! pos_of d perm) [0..<length perm])))
      else Inl (ValueError ''transpose''))"

definition tf_transpose_default :: "tensor \<Rightarrow> error + tensor" where
  "tf_transpose_default t = tf_transpose t (rev [0..<length (shape t)])"

text \<open>
  \<open>tf.batch_matmul(x, y, adj_y)\<close>: the matrix product of the last two dimensions, for
  each index of the leading (batch) dimensions, which must agree; with \<open>adj_y\<close> the second
  factor is transposed (the adjoint of a real matrix).
\<close>

definition tf_batch_matmul :: "tensor \<Rightarrow> tensor \<Rightarrow> bool \<Rightarrow> error + tensor" where
  "tf_batch_matmul x y adj_y =
     (let rx = length (shape x); ry = length (shape y) in
      if rx < 2 \<or> ry \<noteq> rx \<or> take (rx - 2) (shape x) \<noteq> take (rx - 2) (shape y)
      then Inl (ValueError ''batch_matmul'')
      else
        let b = rx - 2;
            r = shape x ! b; c = shape x ! (b + 1);
            yr = (if adj_y then shape y ! (b + 1) else shape y ! b);
            yc = (if adj_y then shape y ! b else shape y ! (b + 1))
        in if c \<noteq> yr then Inl (ValueError ''batch_matmul'')
           else Inr (tensor_of (take b (shape x) @ [r, yc])
                  (\<lambda>idx. \<Sum>k\<leftarrow>[0..<c].
                      get x (take b idx @ [idx ! b, k]) *
                      get y (take b idx @ (if adj_y then [idx ! (b + 1), k]
                                           else [k, idx ! (b + 1)])))))"

text \<open>
  \<open>tf.batch_matrix_diag_part(t)\<close>: the diagonal of the last two dimensions, which must be
  equal.
\<close>

definition tf_batch_matrix_diag_part :: "tensor \<Rightarrow> error + tensor" where
  "tf_batch_matrix_diag_part t =
     (let r = length (shape t) in
      if r < 2 \<or> shape t ! (r - 2) \<noteq> shape t ! (r - 1)
      then Inl (ValueError ''batch_matrix_diag_part'')
      else Inr (tensor_of (butlast (shape t)) (\<lambda>idx. get t (idx @ [last idx]))))"

text \<open>
  Elementwise binary operations broadcast their operands: the shapes are aligned at the
  last dimension, a missing dimension counts as 1, and two dimensions fit when they are
  equal or one of them is 1. \<open>bshape_rev\<close> works on the reversed shapes.
\<close>

fun bshape_rev :: "nat list \<Rightarrow> nat list \<Rightarrow> nat list option" where
  "bshape_rev [] bs = Some bs"
| "bshape_rev as [] = Some as"
| "bshape_rev (a # as) (b # bs) =
     (if a = b \<or> b = 1 then map_option (Cons a) (bshape_rev as bs)
      else if a = 1 then map_option (Cons b) (bshape_rev as bs)
      else None)"

definition broadcast_shape :: "nat list \<Rightarrow> nat list \<Rightarrow> nat list option" where
  "broadcast_shape a b = map_option rev (bshape_rev (rev a) (rev b))"

definition bidx :: "nat list \<Rightarrow> nat list \<Rightarrow> nat list" where
  "bidx sh idx =
     map2 (\<lambda>n i. if n = 1 then 0 else i) sh (drop (length idx - length sh) idx)"

definition tf_binop :: "(real \<Rightarrow> real \<Rightarrow> real) \<Rightarrow> tensor \<Rightarrow> tensor \<Rightarrow> error + tensor" where
  "tf_binop f a b =
     (case broadcast_shape (shape a) (shape b) of
        None \<Rightarrow> Inl (ValueError ''broadcast'')
      | Some sh \<Rightarrow>
          Inr (tensor_of sh (\<lambda>idx. f (get a (bidx (shape a) idx)) (get b (bidx (shape b) idx)))))"

definition tf_add :: "tensor \<Rightarrow> tensor \<Rightarrow> error + tensor" where
  "tf_add = tf_binop (\<lambda>x y. x + y)"

definition tf_sub :: "tensor \<Rightarrow> tensor \<Rightarrow> error + tensor" where
  "tf_sub = tf_binop (\<lambda>x y. x - y)"

definition tf_mul :: "tensor \<Rightarrow> tensor \<Rightarrow> error + tensor" where
  "tf_mul = tf_binop (\<lambda>x y. x * y)"

definition tf_div :: "tensor \<Rightarrow> tensor \<Rightarrow> error + tensor" where
  "tf_div = tf_binop (\<lambda>x y. x / y)"

definition tf_unop :: "(real \<Rightarrow> real) \<Rightarrow> tensor \<Rightarrow> tensor" where
  "tf_unop f t = tensor_of (shape t) (\<lambda>idx. f (get t idx))"

definition tf_square :: "tensor \<Rightarrow> tensor" where
  "tf_square = tf_unop (\<lambda>x. x * x)"

definition tf_log :: "tensor \<Rightarrow> tensor" where
  "tf_log = tf_unop ln"

text \<open>
  \<open>tf.reduce_mean(t, reduction_indices=[k])\<close>: the mean over dimension \<open>k\<close>, which is
  removed from the shape. Over an empty dimension TensorFlow's result is not a number;
  here it is \<open>0 / 0 = 0\<close>.
\<close>

definition tf_reduce_mean :: "tensor \<Rightarrow> nat \<Rightarrow> error + tensor" where
  "tf_reduce_mean t k =
     (if length (shape t) \<le> k then Inl (ValueError ''reduce_mean'')
      else Inr (tensor_of (take k (shape t) @ drop (Suc k) (shape t))
             (\<lambda>idx. (\<Sum>s\<leftarrow>[0..<shape t ! k]. get t (take k idx @ [s] @ drop k idx))
                     / real (shape t ! k))))"

text \<open>
  \<open>tf.expand_dims(t, [k])\<close> inserts a dimension of size 1 at position \<open>k\<close>;
  \<open>tf.squeeze(t, [k])\<close> removes dimension \<open>k\<close>, which must have size 1.
\<close>

definition tf_expand_dims :: "tensor \<Rightarrow> nat \<Rightarrow> error + tensor" where
  "tf_expand_dims t k =
     (if length (shape t) < k then Inl (ValueError ''expand_dims'')
      else Inr (tensor_of (take k (shape t) @ [1] @ drop k (shape t))
             (\<lambda>idx. get t (take k idx @ drop (Suc k) idx))))"

definition tf_squeeze :: "tensor \<Rightarrow> nat \<Rightarrow> error + tensor" where
  "tf_squeeze t k =
     (if length (shape t) \<le> k \<or> shape t ! k \<noteq> 1 then Inl (ValueError ''squeeze'')
      else Inr (tensor_of (take k (shape t) @ drop (Suc k) (shape t))
             (\<lambda>idx. get t (take k idx @ [0] @ drop k idx))))"

text \<open>
  \<open>tf.tile(t, multiples)\<close> repeats \<open>t\<close> along each dimension; \<open>multiples\<close> must have one
  entry for each dimension of \<open>t\<close>.
\<close>

definition tf_tile :: "tensor \<Rightarrow> nat list \<Rightarrow> error + tensor" where
  "tf_tile t multiples =
     (if length multiples \<noteq> length (shape t) then Inl (ValueError ''tile'')
      else Inr (tensor_of (map2 (\<lambda>n m. n * m) (shape t) multiples)
             (\<lambda>idx. get t (map2 (\<lambda>i n. i mod n) idx (shape t)))))"

text \<open>
  \<open>tf.random_normal(shape, dtype=tf.float64)\<close> takes as many draws from the generator's
  stream as the shape has elements. The generator is the state threaded through every
  function that can sample.
\<close>

type_synonym rng = "real stream"

definition tf_random_normal :: "nat list \<Rightarrow> rng \<Rightarrow> tensor \<times> rng" where
  "tf_random_normal sh g =
     (\<lparr>shape = sh, vals = stake (prod_list sh) g\<rparr>, sdrop (prod_list sh) g)"

text \<open>
  The module \<open>tf\<close> has no attribute \<open>stranspose\<close>: evaluating \<open>tf.stranspose\<close> raises
  \<open>AttributeError\<close>, before any argument of the call is evaluated.
\<close>

definition tf_stranspose :: "error + (tensor \<Rightarrow> nat list \<Rightarrow> error + tensor)" where
  "tf_stranspose = Inl (AttributeError ''stranspose'')"

section \<open>Likelihood objects\<close>

text \<open>
  An object of one of the three classes of \<^verbatim>\<open>likelihoods.py\<close>. An attribute that the
  constructor of the class does not set is \<open>None\<close>, and reading it raises
  \<open>AttributeError\<close>. The parameter \<open>variance\<close> is a real number, used as a tensor of
  rank 0; \<open>invlink\<close> is applied to each element.
\<close>

datatype cls = StochasticLikelihood | Gaussian | Poisson

record likelihood =
  cls_of :: cls
  num_samples :: nat
  variance :: "real option"
  invlink :: "(real \<Rightarrow> real) option"
  exact :: "bool option"

definition StochasticLikelihood_init :: "nat \<Rightarrow> likelihood" where
  "StochasticLikelihood_init n =
     \<lparr>cls_of = StochasticLikelihood, num_samples = n, variance = None, invlink = None,
      exact = None\<rparr>"

definition Gaussian_init :: "nat \<Rightarrow> bool \<Rightarrow> likelihood" where
  "Gaussian_init num_stocastic_points ex =
     (StochasticLikelihood_init num_stocastic_points)
       \<lparr>cls_of := Gaussian, variance := Some 1, exact := Some ex\<rparr>"

definition Poisson_init :: "(real \<Rightarrow> real) \<Rightarrow> nat \<Rightarrow> bool \<Rightarrow> likelihood" where
  "Poisson_init f num_stocastic_points ex =
     (StochasticLikelihood_init num_stocastic_points)
       \<lparr>cls_of := Poisson, invlink := Some f, exact := Some ex\<rparr>"

definition attr_variance :: "likelihood \<Rightarrow> error + real" where
  "attr_variance self =
     (case variance self of None \<Rightarrow> Inl (AttributeError ''variance'') | Some v \<Rightarrow> Inr v)"

definition attr_invlink :: "likelihood \<Rightarrow> error + (real \<Rightarrow> real)" where
  "attr_invlink self =
     (case invlink self of None \<Rightarrow> Inl (AttributeError ''invlink'') | Some f \<Rightarrow> Inr f)"

definition attr_exact :: "likelihood \<Rightarrow> error + bool" where
  "attr_exact self =
     (case exact self of None \<Rightarrow> Inl (AttributeError ''exact'') | Some b \<Rightarrow> Inr b)"

text \<open>
  The functions of the library GPflow that the code calls: the log-densities and the
  method \<open>variational_expectations\<close> that the classes inherit. They are parameters of
  the model.
\<close>

record gpflow =
  densities_gaussian :: "tensor \<Rightarrow> tensor \<Rightarrow> tensor \<Rightarrow> error + tensor"
  densities_poisson :: "tensor \<Rightarrow> tensor \<Rightarrow> error + tensor"
  variational_expectations :: "likelihood \<Rightarrow> tensor \<Rightarrow> tensor \<Rightarrow> tensor \<Rightarrow> error + tensor"

section \<open>The methods\<close>

definition StochasticLikelihood_transform :: "likelihood \<Rightarrow> tensor \<Rightarrow> error + tensor" where
  "StochasticLikelihood_transform self F = Inl NotImplementedError"

definition Gaussian_transform :: "likelihood \<Rightarrow> tensor \<Rightarrow> error + tensor" where
  "Gaussian_transform self F = Inr F"

text \<open>\<open>self.transform(F)\<close>: the method of the object's class, or the inherited one.\<close>

definition transform :: "likelihood \<Rightarrow> tensor \<Rightarrow> error + tensor" where
  "transform self F =
     (case cls_of self of
        Gaussian \<Rightarrow> Gaussian_transform self F
      | _ \<Rightarrow> StochasticLikelihood_transform self F)"

text \<open>
  \<open>logp\<close> is declared with three arguments in the base class and with two in the
  subclasses; a call passes the list of its arguments.
\<close>

definition StochasticLikelihood_logp :: "likelihood \<Rightarrow> tensor list \<Rightarrow> error + tensor" where
  "StochasticLikelihood_logp self args =
     (case args of [Gmu, Gvar, Y] \<Rightarrow> Inl NotImplementedError | _ \<Rightarrow> Inl TypeError)"

definition Gaussian_logp :: "gpflow \<Rightarrow> likelihood \<Rightarrow> tensor list \<Rightarrow> error + tensor" where
  "Gaussian_logp ext self args =
     (case args of
        [F, Y] \<Rightarrow> bnd (attr_variance self) (\<lambda>v. densities_gaussian ext F Y (scalar v))
      | _ \<Rightarrow> Inl TypeError)"

definition Poisson_logp :: "gpflow \<Rightarrow> likelihood \<Rightarrow> tensor list \<Rightarrow> error + tensor" where
  "Poisson_logp ext self args =
     (case args of
        [F, Y] \<Rightarrow> bnd (attr_invlink self) (\<lambda>f. densities_poisson ext (tf_unop f F) Y)
      | _ \<Rightarrow> Inl TypeError)"

definition logp :: "gpflow \<Rightarrow> likelihood \<Rightarrow> tensor list \<Rightarrow> error + tensor" where
  "logp ext self args =
     (case cls_of self of
        StochasticLikelihood \<Rightarrow> StochasticLikelihood_logp self args
      | Gaussian \<Rightarrow> Gaussian_logp ext self args
      | Poisson \<Rightarrow> Poisson_logp ext self args)"

definition estimate_mu_var :: "likelihood \<Rightarrow> tensor \<Rightarrow> error + tensor \<times> tensor" where
  "estimate_mu_var self G =
     bnd (tf_reduce_mean G 0) (\<lambda>Gmu.
     bnd (tf_sub G Gmu) (\<lambda>d.
     bnd (tf_reduce_mean (tf_square d) 0) (\<lambda>Gvar.
     Inr (Gmu, Gvar))))"

text \<open>
  The generic path, lines 41 to 59. The generator is read by \<open>tf.random_normal\<close> first;
  every later step keeps the generator it left.
\<close>

definition StochasticLikelihood_stochastic_expectations ::
  "gpflow \<Rightarrow> likelihood \<Rightarrow> rng \<Rightarrow> tensor \<Rightarrow> tensor \<Rightarrow> tensor \<Rightarrow> (error + tensor) \<times> rng" where
  "StochasticLikelihood_stochastic_expectations ext self g Fmu L Y =
     (if length (shape L) < 3 then (Inl (ValueError ''slice''), g)
      else
        let (rndn, g') =
              tf_random_normal [num_samples self, shape L ! 2, shape L ! 1, 1] g
        in (bnd (tf_transpose L [2, 0, 1]) (\<lambda>Lt.
            bnd (tf_expand_dims Lt 0) (\<lambda>Le.
            bnd (tf_tile Le [num_samples self, 1, 1]) (\<lambda>L.
            bnd (tf_expand_dims Fmu 0) (\<lambda>Fe.
            bnd (tf_tile Fe [num_samples self, 1, 1]) (\<lambda>Ft.
            bnd tf_stranspose (\<lambda>stranspose.
            bnd (tf_batch_matmul L rndn False) (\<lambda>Lr.
            bnd (tf_squeeze Lr 3) (\<lambda>sq.
            bnd (stranspose sq [0, 2, 1]) (\<lambda>noise.
            bnd (tf_add Ft noise) (\<lambda>X.
            bnd (transform self X) (\<lambda>G.
            bnd (estimate_mu_var self G) (\<lambda>(Gmu, Gvar).
            variational_expectations ext self Gmu Gvar Y)))))))))))),
            g'))"

text \<open>
  The closed form of lines 112 to 117 and, again, of lines 136 to 141. The code reads
  \<open>self.variance\<close> twice.
\<close>

definition Gaussian_stochastic_expectations ::
  "gpflow \<Rightarrow> likelihood \<Rightarrow> rng \<Rightarrow> tensor \<Rightarrow> tensor \<Rightarrow> tensor \<Rightarrow> (error + tensor) \<times> rng" where
  "Gaussian_stochastic_expectations ext self g Fmu L Y =
     (case attr_exact self of
        Inl e \<Rightarrow> (Inl e, g)
      | Inr ex \<Rightarrow>
          if ex then
            (bnd (tf_transpose L [2, 0, 1]) (\<lambda>L.
             bnd (tf_batch_matmul L L True) (\<lambda>LLt.
             bnd (tf_batch_matrix_diag_part LLt) (\<lambda>Fvar.
             bnd (tf_transpose_default Fmu) (\<lambda>Fmu.
             bnd (tf_transpose_default Y) (\<lambda>Y.
             bnd (attr_variance self) (\<lambda>v1.
             bnd (tf_mul (scalar 0.5) (tf_log (scalar v1))) (\<lambda>t2.
             bnd (tf_sub (scalar (- 0.5 * ln (2 * pi))) t2) (\<lambda>t12.
             bnd (tf_sub Y Fmu) (\<lambda>d.
             bnd (tf_add (tf_square d) Fvar) (\<lambda>s.
             bnd (tf_mul (scalar 0.5) s) (\<lambda>hs.
             bnd (attr_variance self) (\<lambda>v2.
             bnd (tf_div hs (scalar v2)) (\<lambda>t3.
             tf_sub t12 t3))))))))))))),
             g)
          else StochasticLikelihood_stochastic_expectations ext self g Fmu L Y)"

definition Poisson_stochastic_expectations ::
  "gpflow \<Rightarrow> likelihood \<Rightarrow> rng \<Rightarrow> tensor \<Rightarrow> tensor \<Rightarrow> tensor \<Rightarrow> (error + tensor) \<times> rng" where
  "Poisson_stochastic_expectations ext self g Fmu L Y =
     (case attr_exact self of
        Inl e \<Rightarrow> (Inl e, g)
      | Inr ex \<Rightarrow>
          if ex then
            (bnd (tf_transpose L [2, 0, 1]) (\<lambda>L.
             bnd (tf_batch_matmul L L True) (\<lambda>LLt.
             bnd (tf_batch_matrix_diag_part LLt) (\<lambda>Fvar.
             bnd (tf_transpose_default Fmu) (\<lambda>Fmu.
             bnd (tf_transpose_default Y) (\<lambda>Y.
             bnd (attr_variance self) (\<lambda>v1.
             bnd (tf_mul (scalar 0.5) (tf_log (scalar v1))) (\<lambda>t2.
             bnd (tf_sub (scalar (- 0.5 * ln (2 * pi))) t2) (\<lambda>t12.
             bnd (tf_sub Y Fmu) (\<lambda>d.
             bnd (tf_add (tf_square d) Fvar) (\<lambda>s.
             bnd (tf_mul (scalar 0.5) s) (\<lambda>hs.
             bnd (attr_variance self) (\<lambda>v2.
             bnd (tf_div hs (scalar v2)) (\<lambda>t3.
             tf_sub t12 t3))))))))))))),
             g)
          else
            (case attr_invlink self of
               Inl e \<Rightarrow> (Inl e, g)
             | Inr f \<Rightarrow>
                 StochasticLikelihood_stochastic_expectations ext self g
                   (tf_unop f Fmu) L Y))"

text \<open>\<open>self.stochastic_expectations(Fmu, L, Y)\<close>: the method of the object's class.\<close>

definition stochastic_expectations ::
  "gpflow \<Rightarrow> likelihood \<Rightarrow> rng \<Rightarrow> tensor \<Rightarrow> tensor \<Rightarrow> tensor \<Rightarrow> (error + tensor) \<times> rng" where
  "stochastic_expectations ext self g Fmu L Y =
     (case cls_of self of
        StochasticLikelihood \<Rightarrow> StochasticLikelihood_stochastic_expectations ext self g Fmu L Y
      | Gaussian \<Rightarrow> Gaussian_stochastic_expectations ext self g Fmu L Y
      | Poisson \<Rightarrow> Poisson_stochastic_expectations ext self g Fmu L Y)"

section \<open>The closed form of the specification, and concrete inputs\<close>

text \<open>
  One element of the closed form as section 4.5 of the specification writes it:
  \<open>-0.5*log(2*pi) - 0.5*log(variance) - 0.5*((Y-Fmu)^2 + Fvar)/variance\<close>.
\<close>

definition closed_form :: "real \<Rightarrow> real \<Rightarrow> real \<Rightarrow> real \<Rightarrow> real" where
  "closed_form v y mu fvar =
     - 0.5 * ln (2 * pi) - 0.5 * ln v - 0.5 * ((y - mu) * (y - mu) + fvar) / v"

text \<open>
  The diagonal of \<open>L[:,:,m] L[:,:,m]^T\<close> at point \<open>n\<close>, for \<open>L\<close> of shape \<open>[N, K, M]\<close>.
\<close>

definition cov_diag :: "tensor \<Rightarrow> nat \<Rightarrow> nat \<Rightarrow> nat \<Rightarrow> real" where
  "cov_diag L K n m = (\<Sum>k\<leftarrow>[0..<K]. get L [n, k, m] * get L [n, k, m])"

text \<open>
  A generator and an instance of the GPflow functions for the concrete inputs of the
  examples. No result below depends on them.
\<close>

definition rng0 :: rng where
  "rng0 = sconst 0"

definition gpflow_stub :: gpflow where
  "gpflow_stub =
     \<lparr>densities_gaussian = (\<lambda>x mu var. Inl NotImplementedError),
      densities_poisson = (\<lambda>lamb y. Inl NotImplementedError),
      variational_expectations = (\<lambda>self Fmu Fvar Y. Inl NotImplementedError)\<rparr>"

section \<open>Facts about tensors and the operations\<close>

lemma length_indices: "length (indices sh) = prod_list sh"
  by (induction sh) (simp_all add: indices_def length_concat o_def sum_list_triv)

lemma set_indices: "set (indices sh) = {idx. valid sh idx}"
  by (auto simp: indices_def valid_def product_lists_set list_all2_map2 elim: list_all2_mono)

lemma nth_concat_uniform:
  "\<forall>xs \<in> set xss. length xs = k \<Longrightarrow> i < length xss \<Longrightarrow> j < k \<Longrightarrow>
   concat xss ! (i * k + j) = xss ! i ! j"
proof (induction xss arbitrary: i)
  case Nil
  then show ?case by simp
next
  case (Cons xs xss)
  show ?case
  proof (cases i)
    case 0
    with Cons.prems show ?thesis by (simp add: nth_append)
  next
    case (Suc i')
    with Cons.prems have "concat xss ! (i' * k + j) = xss ! i' ! j"
      by (intro Cons.IH) auto
    with Suc Cons.prems show ?thesis by (simp add: nth_append)
  qed
qed

lemma valid_Nil [simp]: "valid [] idx \<longleftrightarrow> idx = []"
  by (simp add: valid_def)

lemma valid_Cons: "valid (n # sh) idx \<longleftrightarrow> (\<exists>i r. idx = i # r \<and> i < n \<and> valid sh r)"
  by (auto simp: valid_def list_all2_Cons2)

lemma valid_Cons_Cons [simp]: "valid (n # sh) (i # r) \<longleftrightarrow> i < n \<and> valid sh r"
  by (simp add: valid_def)

lemma valid_length: "valid sh idx \<Longrightarrow> length idx = length sh"
  by (simp add: valid_def list_all2_lengthD)

lemma offset_indices:
  "valid sh idx \<Longrightarrow> offset sh idx < prod_list sh \<and> indices sh ! offset sh idx = idx"
proof (induction sh arbitrary: idx)
  case Nil
  then show ?case by (simp add: indices_def)
next
  case (Cons n sh)
  then obtain i rest where idx: "idx = i # rest" and i: "i < n" and rest: "valid sh rest"
    by (auto simp: valid_Cons)
  let ?k = "prod_list sh"
  from Cons.IH[OF rest] have o: "offset sh rest < ?k" and nth: "indices sh ! offset sh rest = rest"
    by auto
  have "i * ?k + offset sh rest < i * ?k + ?k" using o by simp
  also have "\<dots> = Suc i * ?k" by simp
  also have "\<dots> \<le> n * ?k" using i by (intro mult_le_mono1) simp
  finally have bound: "offset (n # sh) idx < prod_list (n # sh)" by (simp add: idx)
  let ?xss = "map (\<lambda>x. map (Cons x) (indices sh)) [0..<n]"
  have "concat ?xss ! (i * ?k + offset sh rest) = ?xss ! i ! offset sh rest"
    using i o by (intro nth_concat_uniform) (auto simp: length_indices)
  also have "\<dots> = i # rest" using i o nth by (simp add: length_indices)
  finally have "indices (n # sh) ! offset (n # sh) idx = idx"
    by (simp add: idx indices_def)
  with bound show ?case by simp
qed

lemma get_tensor_of [simp]: "valid sh idx \<Longrightarrow> get (tensor_of sh f) idx = f idx"
  using offset_indices[of sh idx] by (simp add: get_def tensor_of_def length_indices)

lemma shape_tensor_of [simp]: "shape (tensor_of sh f) = sh"
  by (simp add: tensor_of_def)

lemma wf_tensor_of: "wf_tensor (tensor_of sh f)"
  by (simp add: wf_tensor_def tensor_of_def length_indices)

lemma tensor_of_cong:
  "(\<And>idx. valid sh idx \<Longrightarrow> f idx = g idx) \<Longrightarrow> tensor_of sh f = tensor_of sh g"
  by (simp add: tensor_of_def set_indices)

lemma tensor_of_eq_iff:
  "tensor_of sh f = tensor_of sh g \<longleftrightarrow> (\<forall>idx. valid sh idx \<longrightarrow> f idx = g idx)"
  by (auto simp: tensor_of_def set_indices)

lemma get_scalar [simp]: "get (scalar r) [] = r"
  by (simp add: scalar_def)

lemma shape_scalar [simp]: "shape (scalar r) = []"
  by (simp add: scalar_def)

lemma bnd_Inr [simp]: "bnd (Inr x) f = f x" and bnd_Inl [simp]: "bnd (Inl e) f = Inl e"
  by (simp_all add: bnd_def)

lemma transpose_201:
  assumes "shape L = [A, B, C]"
  shows "tf_transpose L [2, 0, 1] = Inr (tensor_of [C, A, B] (\<lambda>idx. get L [idx ! 1, idx ! 2, idx ! 0]))"
proof -
  have "[0..<3] = [0, 1, 2]" by (simp add: upt_rec)
  moreover have "sort [2, 0, 1::nat] = [0, 1, 2]" by simp
  ultimately show ?thesis using assms
    by (simp add: tf_transpose_def pos_of_def numeral_2_eq_2)
qed

lemma transpose_default_2:
  assumes "shape t = [N, M]"
  shows "tf_transpose_default t = Inr (tensor_of [M, N] (\<lambda>idx. get t [idx ! 1, idx ! 0]))"
proof -
  have "[0..<2] = [0, 1]" by (simp add: upt_rec)
  then show ?thesis using assms
    by (simp add: tf_transpose_default_def tf_transpose_def pos_of_def)
qed

lemma batch_matmul_adj_3:
  assumes "shape t = [C, A, B]"
  shows "tf_batch_matmul t t True =
         Inr (tensor_of [C, A, A] (\<lambda>idx. \<Sum>k\<leftarrow>[0..<B]. get t [idx ! 0, idx ! 1, k] * get t [idx ! 0, idx ! 2, k]))"
  using assms
  by (auto simp: tf_batch_matmul_def Let_def valid_Cons numeral_2_eq_2 intro!: tensor_of_cong)

lemma diag_part_3:
  assumes "shape t = [C, A, A]"
  shows "tf_batch_matrix_diag_part t = Inr (tensor_of [C, A] (\<lambda>idx. get t [idx ! 0, idx ! 1, idx ! 1]))"
  using assms
  by (auto simp: tf_batch_matrix_diag_part_def Let_def valid_Cons numeral_2_eq_2 intro!: tensor_of_cong)

lemma bshape_rev_same: "bshape_rev xs xs = Some xs"
  by (induction xs) simp_all

lemma bshape_rev_Nil2: "bshape_rev xs [] = Some xs"
  by (cases xs) simp_all

lemma broadcast_shape_same [simp]: "broadcast_shape sh sh = Some sh"
  by (simp add: broadcast_shape_def bshape_rev_same)

lemma broadcast_shape_Nil [simp]: "broadcast_shape [] sh = Some sh" "broadcast_shape sh [] = Some sh"
  by (simp_all add: broadcast_shape_def bshape_rev_Nil2)

lemma bidx_valid: "valid sh idx \<Longrightarrow> bidx sh idx = idx"
proof -
  assume v: "valid sh idx"
  then have "length idx = length sh" by (rule valid_length)
  moreover have "map2 (\<lambda>n i. if n = 1 then 0 else i) sh idx = idx"
    using v unfolding valid_def
    by (induction idx sh rule: list_all2_induct) auto
  ultimately show ?thesis by (simp add: bidx_def)
qed

lemma bidx_Nil [simp]: "bidx [] idx = []"
  by (simp add: bidx_def)

lemma binop_same:
  "shape a = sh \<Longrightarrow> shape b = sh \<Longrightarrow>
   tf_binop f a b = Inr (tensor_of sh (\<lambda>idx. f (get a idx) (get b idx)))"
  by (auto simp: tf_binop_def bidx_valid intro!: tensor_of_cong)

lemma binop_scalar_left:
  "shape a = [] \<Longrightarrow> tf_binop f a b = Inr (tensor_of (shape b) (\<lambda>idx. f (get a []) (get b idx)))"
  by (auto simp: tf_binop_def bidx_valid intro!: tensor_of_cong)

lemma binop_scalar_right:
  "shape b = [] \<Longrightarrow> tf_binop f a b = Inr (tensor_of (shape a) (\<lambda>idx. f (get a idx) (get b [])))"
  by (auto simp: tf_binop_def bidx_valid intro!: tensor_of_cong)

lemma Fvar_eq:
  assumes "shape L = [A, B, C]"
  shows "bnd (tf_transpose L [2, 0, 1]) (\<lambda>L'.
         bnd (tf_batch_matmul L' L' True) (\<lambda>LLt.
         bnd (tf_batch_matrix_diag_part LLt) K)) =
         K (tensor_of [C, A] (\<lambda>idx. \<Sum>k\<leftarrow>[0..<B]. get L [idx ! 1, k, idx ! 0] * get L [idx ! 1, k, idx ! 0]))"
proof -
  define T where "T = tensor_of [C, A, B] (\<lambda>idx. get L [idx ! 1, idx ! 2, idx ! 0])"
  define P where "P = tensor_of [C, A, A] (\<lambda>idx. \<Sum>k\<leftarrow>[0..<B]. get T [idx ! 0, idx ! 1, k] * get T [idx ! 0, idx ! 2, k])"
  define D where "D = tensor_of [C, A] (\<lambda>idx. get P [idx ! 0, idx ! 1, idx ! 1])"
  have t: "tf_transpose L [2, 0, 1] = Inr T"
    unfolding T_def by (rule transpose_201[OF assms])
  have p: "tf_batch_matmul T T True = Inr P"
    unfolding P_def by (rule batch_matmul_adj_3) (simp add: T_def)
  have d: "tf_batch_matrix_diag_part P = Inr D"
    unfolding D_def by (rule diag_part_3) (simp add: P_def)
  have "D = tensor_of [C, A] (\<lambda>idx. \<Sum>k\<leftarrow>[0..<B]. get L [idx ! 1, k, idx ! 0] * get L [idx ! 1, k, idx ! 0])"
    unfolding D_def P_def T_def
    by (rule tensor_of_cong) (auto simp: valid_Cons intro!: arg_cong[where f = sum_list] map_cong)
  then show ?thesis
    by (simp only: t p d bnd_Inr)
qed

lemma attr_simps [simp]:
  "variance self = Some v \<Longrightarrow> attr_variance self = Inr v"
  "variance self = None \<Longrightarrow> attr_variance self = Inl (AttributeError ''variance'')"
  "exact self = Some b \<Longrightarrow> attr_exact self = Inr b"
  "invlink self = Some f \<Longrightarrow> attr_invlink self = Inr f"
  by (simp_all add: attr_variance_def attr_exact_def attr_invlink_def)

lemma shape_unop [simp]: "shape (tf_unop f t) = shape t"
  by (simp add: tf_unop_def)

lemma get_unop: "valid (shape t) idx \<Longrightarrow> get (tf_unop f t) idx = f (get t idx)"
  by (simp add: tf_unop_def)

lemma get_unop_scalar [simp]: "get (tf_unop f (scalar r)) [] = f r"
  by (simp add: tf_unop_def)

lemmas eval_simps = indices_def tensor_of_def get_def upt_conv_Cons Gaussian_init_def
  StochasticLikelihood_init_def Poisson_init_def closed_form_def cov_diag_def

lemma dispatch_Gaussian:
  "cls_of self = Gaussian \<Longrightarrow>
   stochastic_expectations ext self g Fmu L Y =
   Gaussian_stochastic_expectations ext self g Fmu L Y"
  by (simp add: stochastic_expectations_def)

lemma dispatch_Poisson:
  "cls_of self = Poisson \<Longrightarrow>
   stochastic_expectations ext self g Fmu L Y =
   Poisson_stochastic_expectations ext self g Fmu L Y"
  by (simp add: stochastic_expectations_def)

section \<open>The value of \<open>-0.5*log(2*pi) - 0.5\<close>\<close>

text \<open>
  Bounds for \<open>arctan\<close> from its alternating series, for \<open>pi\<close> from Machin's formula, and
  for \<open>exp\<close> from its Maclaurin expansion.
\<close>

lemma arctan_series_bounds:
  fixes x :: real
  assumes "0 \<le> x" "x \<le> 1"
  shows "(\<Sum>i<2 * n. (- 1) ^ i * (1 / real (i * 2 + 1) * x ^ (i * 2 + 1))) \<le> arctan x"
    and "arctan x \<le> (\<Sum>i<2 * n + 1. (- 1) ^ i * (1 / real (i * 2 + 1) * x ^ (i * 2 + 1)))"
proof -
  let ?a = "\<lambda>n. 1 / real (n * 2 + 1) * x ^ (n * 2 + 1)"
  have ax: "\<bar>x\<bar> \<le> 1" using assms by simp
  have z: "?a \<longlonglongrightarrow> 0" by (rule zeroseq_arctan_series[OF ax])
  have p: "\<And>n. 0 \<le> ?a n" using assms by simp
  have m: "?a (Suc n) \<le> ?a n" for n
  proof -
    have "x ^ (Suc n * 2 + 1) \<le> x ^ (n * 2 + 1)"
      using assms by (intro power_decreasing) simp_all
    moreover have "1 / real (Suc n * 2 + 1) \<le> 1 / real (n * 2 + 1)"
      by (simp add: field_simps)
    ultimately show ?thesis
      using assms by (intro mult_mono) simp_all
  qed
  have s: "arctan x = (\<Sum>k. (- 1) ^ k * ?a k)"
    by (rule arctan_series[OF ax])
  show "(\<Sum>i<2 * n. (- 1) ^ i * ?a i) \<le> arctan x"
    unfolding s by (rule summable_Leibniz'(2)[OF z p m])
  show "arctan x \<le> (\<Sum>i<2 * n + 1. (- 1) ^ i * ?a i)"
    unfolding s by (rule summable_Leibniz'(4)[OF z p m])
qed

lemma pi_bounds: "3.141592 < pi" "pi < 3.141593"
proof -
  have l5: "1/5 - (1/5)^3/3 + (1/5)^5/5 - (1/5)^7/7 + (1/5)^9/9 - (1/5)^11/11
            \<le> arctan (1/5 :: real)"
    using arctan_series_bounds(1)[of "1/5" 3] by (simp add: lessThan_Suc eval_nat_numeral)
  have u5: "arctan (1/5 :: real) \<le> 1/5 - (1/5)^3/3 + (1/5)^5/5 - (1/5)^7/7 + (1/5)^9/9"
    using arctan_series_bounds(2)[of "1/5" 2] by (simp add: lessThan_Suc eval_nat_numeral)
  have l239: "1/239 - (1/239)^3/3 \<le> arctan (1/239 :: real)"
    using arctan_series_bounds(1)[of "1/239" 1] by (simp add: lessThan_Suc eval_nat_numeral)
  have u239: "arctan (1/239 :: real) \<le> 1/239 - (1/239)^3/3 + (1/239)^5/5"
    using arctan_series_bounds(2)[of "1/239" 1] by (simp add: lessThan_Suc eval_nat_numeral)
  have pi4: "pi = 16 * arctan (1/5) - 4 * arctan (1/239)"
    using machin by simp
  show "3.141592 < pi"
    unfolding pi4 using l5 u239 by (simp add: eval_nat_numeral)
  show "pi < 3.141593"
    unfolding pi4 using u5 l239 by (simp add: eval_nat_numeral)
qed

lemma exp_lower_sum:
  fixes x :: real
  assumes "0 \<le> x"
  shows "(\<Sum>m<n. x ^ m / fact m) \<le> exp x"
proof -
  obtain t where t: "exp x = (\<Sum>m<n. x ^ m / fact m) + exp t / fact n * x ^ n"
    using Maclaurin_exp_le[of x n] by blast
  have "0 \<le> exp t / fact n * x ^ n" using assms by simp
  with t show ?thesis by linarith
qed

lemma exp_upper_sum:
  fixes x :: real
  assumes "0 \<le> x" "x \<le> 2"
  shows "exp x \<le> (\<Sum>m<n. x ^ m / fact m) + 9 / fact n * x ^ n"
proof -
  obtain t where t: "\<bar>t\<bar> \<le> \<bar>x\<bar>" "exp x = (\<Sum>m<n. x ^ m / fact m) + exp t / fact n * x ^ n"
    using Maclaurin_exp_le[of x n] by blast
  have "t \<le> 2" using t(1) assms by simp
  then have "exp t \<le> exp 2" by simp
  also have "exp (2::real) = exp 1 * exp 1" by (simp flip: exp_add)
  also have "\<dots> \<le> 3 * 3" by (intro mult_mono exp_le) simp_all
  finally have "exp t \<le> 9" by simp
  then have "exp t / fact n * x ^ n \<le> 9 / fact n * x ^ n"
    using assms by (intro mult_right_mono divide_right_mono) simp_all
  with t(2) show ?thesis by linarith
qed

lemma ln_2pi_bounds: "1.837876 < ln (2 * pi)" "ln (2 * pi) < 1.837878"
proof -
  have "exp (1.837876 :: real) \<le>
        (\<Sum>m<14. 1.837876 ^ m / fact m) + 9 / fact 14 * 1.837876 ^ 14"
    by (rule exp_upper_sum) simp_all
  also have "\<dots> < 6.283184"
    by (simp add: lessThan_Suc eval_nat_numeral fact_numeral)
  also have "\<dots> < 2 * pi" using pi_bounds(1) by simp
  finally have "exp 1.837876 < exp (ln (2 * pi))" by simp
  then show "1.837876 < ln (2 * pi)" by (simp only: exp_less_cancel_iff)
  have "2 * pi < 6.283186" using pi_bounds(2) by simp
  also have "\<dots> < (\<Sum>m<14. 1.837878 ^ m / fact m :: real)"
    by (simp add: lessThan_Suc eval_nat_numeral fact_numeral)
  also have "\<dots> \<le> exp 1.837878"
    by (rule exp_lower_sum) simp
  finally have "exp (ln (2 * pi)) < exp 1.837878" by simp
  then show "ln (2 * pi) < 1.837878" by (simp only: exp_less_cancel_iff)
qed

lemma single_point_value_approx: "\<bar>(- 0.5 * ln (2 * pi) - 0.5) - (- 1.4189385)\<bar> < 1 / 1000000"
proof -
  define y where "y = ln (2 * pi)"
  have "1837876 / 1000000 < y" "y < 1837878 / 1000000"
    using ln_2pi_bounds by (simp_all add: y_def)
  then have "\<bar>(- (1 / 2) * y - 1 / 2) - (- (14189385 / 10000000))\<bar> < 1 / 1000000"
    by linarith
  then show ?thesis
    by (simp add: y_def)
qed

section \<open>The exact path of the Gaussian likelihood\<close>

text \<open>
  What the rest of the closed form computes from the transposed mean, the transposed
  data and \<open>Fvar\<close>, when the three have the same shape.
\<close>

lemma exact_rest:
  assumes "shape Yt = sh" "shape Ft = sh" "shape Fv = sh"
  shows "bnd (tf_mul (scalar 0.5) (tf_log (scalar v))) (\<lambda>t2.
         bnd (tf_sub (scalar (- 0.5 * ln (2 * pi))) t2) (\<lambda>t12.
         bnd (tf_sub Yt Ft) (\<lambda>d.
         bnd (tf_add (tf_square d) Fv) (\<lambda>s.
         bnd (tf_mul (scalar 0.5) s) (\<lambda>hs.
         bnd (tf_div hs (scalar v)) (\<lambda>t3.
         tf_sub t12 t3)))))) =
         Inr (tensor_of sh (\<lambda>idx. closed_form v (get Yt idx) (get Ft idx) (get Fv idx)))"
  using assms
  by (auto simp: tf_mul_def tf_sub_def tf_add_def tf_div_def tf_square_def tf_log_def
      binop_scalar_left binop_scalar_right binop_same get_unop closed_form_def
      intro!: tensor_of_cong)

lemma gaussian_exact_value:
  assumes "shape Fmu = [N, M]" "shape L = [N, N, M]" "shape Y = [N, M]"
    and "exact self = Some True" "variance self = Some v"
  shows "Gaussian_stochastic_expectations ext self g Fmu L Y =
         (Inr (tensor_of [M, N] (\<lambda>idx.
            closed_form v (get Y [idx ! 1, idx ! 0]) (get Fmu [idx ! 1, idx ! 0])
              (cov_diag L N (idx ! 1) (idx ! 0)))), g)"
proof -
  define Fv where "Fv = tensor_of [M, N]
    (\<lambda>idx. \<Sum>k\<leftarrow>[0..<N]. get L [idx ! 1, k, idx ! 0] * get L [idx ! 1, k, idx ! 0])"
  define Ft where "Ft = tensor_of [M, N] (\<lambda>idx. get Fmu [idx ! 1, idx ! 0])"
  define Yt where "Yt = tensor_of [M, N] (\<lambda>idx. get Y [idx ! 1, idx ! 0])"
  have sh: "shape Yt = [M, N]" "shape Ft = [M, N]" "shape Fv = [M, N]"
    by (simp_all add: Fv_def Ft_def Yt_def)
  have ft: "tf_transpose_default Fmu = Inr Ft" and yt: "tf_transpose_default Y = Inr Yt"
    unfolding Ft_def Yt_def using assms by (simp_all only: transpose_default_2)
  note rest = exact_rest[OF sh, of v]
  have fin: "tensor_of [M, N] (\<lambda>idx. closed_form v (get Yt idx) (get Ft idx) (get Fv idx)) =
        tensor_of [M, N] (\<lambda>idx.
            closed_form v (get Y [idx ! 1, idx ! 0]) (get Fmu [idx ! 1, idx ! 0])
              (cov_diag L N (idx ! 1) (idx ! 0)))"
    by (rule tensor_of_cong) (simp add: Yt_def Ft_def Fv_def cov_diag_def)
  show ?thesis
    unfolding Gaussian_stochastic_expectations_def
    by (simp only: assms attr_simps sum.case if_True Fvar_eq[OF assms(2)] ft yt bnd_Inr
        Fv_def[symmetric] rest fin)
qed

section \<open>More facts about the operations\<close>

lemma sort_rev_upt: "sort (rev [0..<n]) = [0..<n]"
  by (rule sorted_distinct_set_unique) simp_all

lemma transpose_default_total: "\<exists>t'. tf_transpose_default t = Inr t'"
  by (simp add: tf_transpose_default_def tf_transpose_def sort_rev_upt)

lemma rank3_shape: "length sh = 3 \<Longrightarrow> \<exists>A B C. sh = [A, B, C]"
  by (cases sh; cases "tl sh"; cases "tl (tl sh)") (auto simp: Suc_length_conv)



lemma bshape_rev_append: "bshape_rev (xs @ ys) xs = Some (xs @ ys)"
  by (induction xs) (simp_all add: bshape_rev_Nil2)

lemma broadcast_shape_Cons: "broadcast_shape (n # sh) sh = Some (n # sh)"
  by (simp add: broadcast_shape_def bshape_rev_append)

lemma bidx_tail: "valid sh idx \<Longrightarrow> bidx sh (s # idx) = idx"
  using bidx_valid[of sh idx] valid_length[of sh idx] by (simp add: bidx_def)

lemma reduce_mean_0:
  "shape t = n # sh \<Longrightarrow>
   tf_reduce_mean t 0 =
   Inr (tensor_of sh (\<lambda>idx. (\<Sum>s\<leftarrow>[0..<n]. get t (s # idx)) / real n))"
  by (simp add: tf_reduce_mean_def)

lemma sub_leading:
  assumes "shape a = n # sh" "shape b = sh"
  shows "tf_sub a b = Inr (tensor_of (n # sh) (\<lambda>idx. get a idx - get b (tl idx)))"
proof -
  have "get a (bidx (n # sh) idx) - get b (bidx sh idx) = get a idx - get b (tl idx)"
    if "valid (n # sh) idx" for idx
  proof -
    from that obtain i r where idx: "idx = i # r" and r: "valid sh r"
      by (auto simp: valid_Cons)
    show ?thesis
      using bidx_valid[OF that] bidx_tail[OF r, of i] by (simp add: idx)
  qed
  then show ?thesis
    using assms
    by (auto simp: tf_sub_def tf_binop_def broadcast_shape_Cons intro!: tensor_of_cong)
qed

lemma expand_dims_0:
  "tf_expand_dims t 0 = Inr (tensor_of (1 # shape t) (\<lambda>idx. get t (drop (Suc 0) idx)))"
  by (simp add: tf_expand_dims_def)

lemma transpose_201_rank:
  assumes "length (shape L) \<noteq> 3"
  shows "tf_transpose L [2, 0, 1] = Inl (ValueError ''transpose'')"
proof -
  have "[0, 1, 2] \<noteq> [0..<length (shape L)]"
  proof
    assume "[0, 1, 2] = [0..<length (shape L)]"
    then have "length [0, 1, 2 :: nat] = length [0..<length (shape L)]" by simp
    with assms show False by simp
  qed
  moreover have "sort [2, 0, 1 :: nat] = [0, 1, 2]" by simp
  ultimately show ?thesis
    by (simp only: tf_transpose_def if_False)
qed

section \<open>The generic path\<close>

text \<open>
  For a factor \<open>L\<close> of rank 3 the generic path draws the innovations and then stops at
  line 46: \<open>tf.tile\<close> gets the three multiples \<open>[num_samples, 1, 1]\<close> for a tensor of
  rank 4.
\<close>

lemma generic_rank3:
  assumes "shape L = [A, B, C]"
  shows "StochasticLikelihood_stochastic_expectations ext self g Fmu L Y =
         (Inl (ValueError ''tile''), snd (tf_random_normal [num_samples self, C, B, 1] g))"
proof -
  have t: "tf_transpose L [2, 0, 1] =
           Inr (tensor_of [C, A, B] (\<lambda>idx. get L [idx ! 1, idx ! 2, idx ! 0]))"
    by (rule transpose_201[OF assms])
  have tile: "\<And>f. tf_tile (tensor_of [1, C, A, B] f) [num_samples self, 1, 1] =
                  Inl (ValueError ''tile'')"
    by (simp add: tf_tile_def)
  show ?thesis
    unfolding StochasticLikelihood_stochastic_expectations_def
    by (simp add: assms t expand_dims_0 tile split_beta del: One_nat_def)
qed

lemma generic_never_returns:
  "\<exists>s. fst (StochasticLikelihood_stochastic_expectations ext self g Fmu L Y) =
        Inl (ValueError s)"
proof (cases "length (shape L) = 3")
  case True
  then obtain A B C where l: "shape L = [A, B, C]"
    using rank3_shape by blast
  show ?thesis by (simp add: generic_rank3[OF l])
next
  case False
  then show ?thesis
    unfolding StochasticLikelihood_stochastic_expectations_def
    by (simp add: transpose_201_rank split_beta del: One_nat_def)
qed


section \<open>The claims\<close>

text \<open>
  Claim C1, as amended. The claim says that the result has the shape of \<open>Y\<close>. For the
  Gaussian likelihood with \<open>exact = True\<close> and \<open>Fmu\<close> of shape \<open>[N, M]\<close>, \<open>L\<close> of shape
  \<open>[N, N, M]\<close> and \<open>Y\<close> of shape \<open>[N, M]\<close>, the code returns an array of shape \<open>[M, N]\<close>,
  the reverse of the shape of \<open>Y\<close>: lines 112 to 115 transpose the operands and the
  result is not transposed back. The two shapes agree exactly when \<open>N = M\<close>. The
  generator is not read.
\<close>

theorem gaussian_exact_shape_transposed:
  assumes "cls_of self = Gaussian" "exact self = Some True" "variance self = Some v"
    and "shape Fmu = [N, M]" "shape L = [N, N, M]" "shape Y = [N, M]"
  shows "\<exists>E. stochastic_expectations ext self g Fmu L Y = (Inr E, g) \<and>
             shape E = [M, N] \<and> shape E = rev (shape Y) \<and> wf_tensor E \<and>
             (shape E = shape Y \<longleftrightarrow> N = M)"
  using assms gaussian_exact_value[OF assms(4,5,6,2,3), of ext g]
  by (auto simp: dispatch_Gaussian wf_tensor_of)

theorem gaussian_exact_shape_transposed_witness:
  "\<exists>E. stochastic_expectations gpflow_stub (Gaussian_init 20 True) rng0
     \<lparr>shape = [2, 1], vals = [0, 0]\<rparr>
     \<lparr>shape = [2, 2, 1], vals = [1, 0, 0, 1]\<rparr>
     \<lparr>shape = [2, 1], vals = [0, 0]\<rparr> = (Inr E, rng0) \<and> shape E = [1, 2] \<and> wf_tensor E"
  using gaussian_exact_shape_transposed[of "Gaussian_init 20 True" 1
      "\<lparr>shape = [2, 1], vals = [0, 0]\<rparr>" 2 1
      "\<lparr>shape = [2, 2, 1], vals = [1, 0, 0, 1]\<rparr>"
      "\<lparr>shape = [2, 1], vals = [0, 0]\<rparr>" gpflow_stub rng0]
  by (auto simp: Gaussian_init_def StochasticLikelihood_init_def)

text \<open>
  Claim C1 as stated fails: two points and one output, \<open>Fmu\<close> and \<open>Y\<close> of shape
  \<open>[2, 1]\<close> and \<open>L\<close> of shape \<open>[2, 2, 1]\<close> (the identity), give a result of shape
  \<open>[1, 2]\<close>.
\<close>

theorem shape_invariant_counterexample:
  "stochastic_expectations gpflow_stub (Gaussian_init 20 True) rng0
     \<lparr>shape = [2, 1], vals = [0, 0]\<rparr>
     \<lparr>shape = [2, 2, 1], vals = [1, 0, 0, 1]\<rparr>
     \<lparr>shape = [2, 1], vals = [0, 0]\<rparr>
   = (Inr \<lparr>shape = [1, 2],
            vals = [- 0.5 * ln (2 * pi) - 0.5, - 0.5 * ln (2 * pi) - 0.5]\<rparr>, rng0)
   \<and> [1, 2] \<noteq> shape \<lparr>shape = [2, 1], vals = [0, 0 :: real]\<rparr>"
proof -
  let ?F = "\<lparr>shape = [2, 1], vals = [0, 0]\<rparr>"
  let ?L = "\<lparr>shape = [2, 2, 1], vals = [1, 0, 0, 1]\<rparr>"
  have "Gaussian_stochastic_expectations gpflow_stub (Gaussian_init 20 True) rng0 ?F ?L ?F =
        (Inr (tensor_of [1, 2] (\<lambda>idx.
            closed_form 1 (get ?F [idx ! 1, idx ! 0]) (get ?F [idx ! 1, idx ! 0])
              (cov_diag ?L 2 (idx ! 1) (idx ! 0)))), rng0)"
    by (rule gaussian_exact_value)
       (simp_all add: Gaussian_init_def StochasticLikelihood_init_def)
  then show ?thesis
    by (simp add: dispatch_Gaussian eval_simps)
qed

text \<open>
  Claim C2. The exact branch of the Poisson likelihood is the same expression as the
  exact branch of the Gaussian likelihood: on any object with \<open>exact = True\<close> the two
  methods agree, and on an object that has a \<open>variance\<close> the value is the closed form.
  The constructor of the Poisson likelihood sets no \<open>variance\<close>, so on a Poisson
  likelihood the call ends in \<open>AttributeError\<close>, for every factor \<open>L\<close> of rank 3.
\<close>

theorem poisson_exact_reads_undefined_variance:
  "(exact self = Some True \<longrightarrow>
      Poisson_stochastic_expectations ext self g Fmu L Y =
      Gaussian_stochastic_expectations ext self g Fmu L Y) \<and>
   (exact self = Some True \<and> variance self = Some v \<and>
    shape Fmu = [N, M] \<and> shape L = [N, N, M] \<and> shape Y = [N, M] \<longrightarrow>
      Poisson_stochastic_expectations ext self g Fmu L Y =
      (Inr (tensor_of [M, N] (\<lambda>idx.
         closed_form v (get Y [idx ! 1, idx ! 0]) (get Fmu [idx ! 1, idx ! 0])
           (cov_diag L N (idx ! 1) (idx ! 0)))), g)) \<and>
   variance (Poisson_init f n ex) = None \<and>
   (length (shape L) = 3 \<longrightarrow>
      stochastic_expectations ext (Poisson_init f n True) g Fmu L Y =
      (Inl (AttributeError ''variance''), g))"
proof -
  have same: "Poisson_stochastic_expectations ext self g Fmu L Y =
      Gaussian_stochastic_expectations ext self g Fmu L Y" if "exact self = Some True"
    using that
    by (simp add: Poisson_stochastic_expectations_def Gaussian_stochastic_expectations_def)
  have val: "Poisson_stochastic_expectations ext self g Fmu L Y =
      (Inr (tensor_of [M, N] (\<lambda>idx.
         closed_form v (get Y [idx ! 1, idx ! 0]) (get Fmu [idx ! 1, idx ! 0])
           (cov_diag L N (idx ! 1) (idx ! 0)))), g)"
    if "exact self = Some True" "variance self = Some v"
      "shape Fmu = [N, M]" "shape L = [N, N, M]" "shape Y = [N, M]"
    using same[OF that(1)] gaussian_exact_value[OF that(3,4,5,1,2), of ext g] by simp
  have none: "variance (Poisson_init f n ex) = None"
    by (simp add: Poisson_init_def StochasticLikelihood_init_def)
  have err: "stochastic_expectations ext (Poisson_init f n True) g Fmu L Y =
      (Inl (AttributeError ''variance''), g)" if "length (shape L) = 3"
  proof -
    from that obtain A B C where l: "shape L = [A, B, C]"
      using rank3_shape by blast
    have p: "cls_of (Poisson_init f n True) = Poisson"
      "exact (Poisson_init f n True) = Some True"
      "variance (Poisson_init f n True) = None"
      by (simp_all add: Poisson_init_def StochasticLikelihood_init_def)
    obtain Ft where ft: "tf_transpose_default Fmu = Inr Ft"
      using transpose_default_total by blast
    obtain Yt where yt: "tf_transpose_default Y = Inr Yt"
      using transpose_default_total by blast
    show ?thesis
      unfolding dispatch_Poisson[OF p(1)] Poisson_stochastic_expectations_def
      by (simp only: p attr_simps sum.case if_True Fvar_eq[OF l] ft yt bnd_Inr bnd_Inl)
  qed
  from same val none err show ?thesis by blast
qed

theorem poisson_exact_reads_undefined_variance_witness:
  "Poisson_stochastic_expectations gpflow_stub (Poisson_init exp 20 True) rng0
      \<lparr>shape = [1, 1], vals = [0]\<rparr> \<lparr>shape = [1, 1, 1], vals = [1]\<rparr>
      \<lparr>shape = [1, 1], vals = [0]\<rparr> =
   Gaussian_stochastic_expectations gpflow_stub (Poisson_init exp 20 True) rng0
      \<lparr>shape = [1, 1], vals = [0]\<rparr> \<lparr>shape = [1, 1, 1], vals = [1]\<rparr>
      \<lparr>shape = [1, 1], vals = [0]\<rparr> \<and>
   Poisson_stochastic_expectations gpflow_stub
      ((Poisson_init exp 20 True)\<lparr>variance := Some 1\<rparr>) rng0
      \<lparr>shape = [1, 1], vals = [0]\<rparr> \<lparr>shape = [1, 1, 1], vals = [1]\<rparr>
      \<lparr>shape = [1, 1], vals = [0]\<rparr> =
   (Inr \<lparr>shape = [1, 1], vals = [- 0.5 * ln (2 * pi) - 0.5]\<rparr>, rng0) \<and>
   variance (Poisson_init exp 20 True) = None \<and>
   stochastic_expectations gpflow_stub (Poisson_init exp 20 True) rng0
      \<lparr>shape = [1, 1], vals = [0]\<rparr> \<lparr>shape = [1, 1, 1], vals = [1]\<rparr>
      \<lparr>shape = [1, 1], vals = [0]\<rparr> =
   (Inl (AttributeError ''variance''), rng0)"
  using poisson_exact_reads_undefined_variance[of "Poisson_init exp 20 True" gpflow_stub rng0
      "\<lparr>shape = [1, 1], vals = [0]\<rparr>" "\<lparr>shape = [1, 1, 1], vals = [1]\<rparr>"
      "\<lparr>shape = [1, 1], vals = [0]\<rparr>" 1 1 1 exp 20 True]
    poisson_exact_reads_undefined_variance[of "(Poisson_init exp 20 True)\<lparr>variance := Some 1\<rparr>"
      gpflow_stub rng0
      "\<lparr>shape = [1, 1], vals = [0]\<rparr>" "\<lparr>shape = [1, 1, 1], vals = [1]\<rparr>"
      "\<lparr>shape = [1, 1], vals = [0]\<rparr>" 1 1 1 exp 20 True]
  by (auto simp: eval_simps)




text \<open>
  Claim C4. For the Gaussian likelihood as its constructor builds it (variance 1.0) with
  \<open>exact = True\<close>, the single point \<open>Fmu = [[0.0]]\<close>, \<open>L = [[[1.0]]]\<close>, \<open>Y = [[0.0]]\<close>
  gives the single value \<open>-0.5*log(2*pi) - 0.5\<close>, whatever the number of samples and
  the generator, and the generator is not read. The value is exact in real arithmetic,
  and it is \<open>-1.4189385\<close> within \<open>1e-6\<close>.
\<close>

theorem gaussian_exact_single_point:
  "stochastic_expectations ext (Gaussian_init n True) g
     \<lparr>shape = [1, 1], vals = [0]\<rparr>
     \<lparr>shape = [1, 1, 1], vals = [1]\<rparr>
     \<lparr>shape = [1, 1], vals = [0]\<rparr>
   = (Inr \<lparr>shape = [1, 1], vals = [- 0.5 * ln (2 * pi) - 0.5]\<rparr>, g) \<and>
   \<bar>(- 0.5 * ln (2 * pi) - 0.5) - (- 1.4189385)\<bar> < 1 / 1000000"
proof -
  let ?F = "\<lparr>shape = [1, 1], vals = [0]\<rparr>"
  let ?L = "\<lparr>shape = [1, 1, 1], vals = [1]\<rparr>"
  have "Gaussian_stochastic_expectations ext (Gaussian_init n True) g ?F ?L ?F =
        (Inr (tensor_of [1, 1] (\<lambda>idx.
            closed_form 1 (get ?F [idx ! 1, idx ! 0]) (get ?F [idx ! 1, idx ! 0])
              (cov_diag ?L 1 (idx ! 1) (idx ! 0)))), g)"
    by (rule gaussian_exact_value)
       (simp_all add: Gaussian_init_def StochasticLikelihood_init_def)
  then have "stochastic_expectations ext (Gaussian_init n True) g ?F ?L ?F =
        (Inr \<lparr>shape = [1, 1], vals = [- 0.5 * ln (2 * pi) - 0.5]\<rparr>, g)"
    by (simp add: dispatch_Gaussian eval_simps)
  with single_point_value_approx show ?thesis
    by (intro conjI)
qed

text \<open>
  Claim C5. The claim describes the sampling step as the comments of lines 41 to 51
  do. The code draws the innovations with shape \<open>[S, M, N, 1]\<close> and then raises: line 46
  passes the three multiples \<open>[S, 1, 1]\<close> to \<open>tf.tile\<close> for the tensor of shape
  \<open>[1, M, N, N]\<close>, so no sample tensor of shape \<open>[S, N, M]\<close> is produced. (Line 51 would
  raise next: \<open>tf.stranspose\<close> does not exist.)
\<close>

theorem sampling_step_raises:
  assumes "shape L = [N, K, M]"
  shows "shape (fst (tf_random_normal [num_samples self, M, K, 1] g)) =
           [num_samples self, M, K, 1] \<and>
         StochasticLikelihood_stochastic_expectations ext self g Fmu L Y =
           (Inl (ValueError ''tile''), snd (tf_random_normal [num_samples self, M, K, 1] g))"
  using generic_rank3[OF assms] by (simp add: tf_random_normal_def)

theorem sampling_step_raises_witness:
  "StochasticLikelihood_stochastic_expectations gpflow_stub (Gaussian_init 20 False) rng0
     \<lparr>shape = [1, 1], vals = [0]\<rparr> \<lparr>shape = [1, 1, 1], vals = [1]\<rparr>
     \<lparr>shape = [1, 1], vals = [0]\<rparr> =
   (Inl (ValueError ''tile''), snd (tf_random_normal [20, 1, 1, 1] rng0))"
  using sampling_step_raises[of "\<lparr>shape = [1, 1, 1], vals = [1]\<rparr>" 1 1 1
      "Gaussian_init 20 False" rng0 gpflow_stub
      "\<lparr>shape = [1, 1], vals = [0]\<rparr>" "\<lparr>shape = [1, 1], vals = [0]\<rparr>"]
  by (simp add: Gaussian_init_def StochasticLikelihood_init_def)

text \<open>
  Claim C6. For a sample tensor \<open>G\<close> of shape \<open>S # rest\<close> with at least one sample,
  \<open>estimate_mu_var\<close> returns the mean over axis 0 and the mean over axis 0 of the squared
  deviation from it, both of shape \<open>rest\<close>; with one sample the call succeeds and the
  variance is zero everywhere.
\<close>

theorem estimate_mu_var_moments:
  assumes "shape G = S # rest" "0 < S"
  shows "\<exists>Gmu Gvar. estimate_mu_var self G = Inr (Gmu, Gvar) \<and>
           shape Gmu = rest \<and> shape Gvar = rest \<and>
           Gmu = tensor_of rest (\<lambda>idx. (\<Sum>s\<leftarrow>[0..<S]. get G (s # idx)) / real S) \<and>
           Gvar = tensor_of rest
                    (\<lambda>idx. (\<Sum>s\<leftarrow>[0..<S]. (get G (s # idx) - get Gmu idx)\<^sup>2) / real S) \<and>
           (S = 1 \<longrightarrow> Gvar = tensor_of rest (\<lambda>idx. 0))"
proof -
  define Gmu where "Gmu = tensor_of rest (\<lambda>idx. (\<Sum>s\<leftarrow>[0..<S]. get G (s # idx)) / real S)"
  define d where "d = tensor_of (S # rest) (\<lambda>idx. get G idx - get Gmu (tl idx))"
  define Gvar where "Gvar = tensor_of rest
    (\<lambda>idx. (\<Sum>s\<leftarrow>[0..<S]. get (tf_square d) (s # idx)) / real S)"
  have m: "tf_reduce_mean G 0 = Inr Gmu"
    unfolding Gmu_def by (rule reduce_mean_0[OF assms(1)])
  have sub: "tf_sub G Gmu = Inr d"
    unfolding d_def by (rule sub_leading[OF assms(1)]) (simp add: Gmu_def)
  have v: "tf_reduce_mean (tf_square d) 0 = Inr Gvar"
    unfolding Gvar_def by (rule reduce_mean_0) (simp add: tf_square_def d_def)
  have res: "estimate_mu_var self G = Inr (Gmu, Gvar)"
    by (simp add: estimate_mu_var_def m sub v)
  have gv: "Gvar = tensor_of rest
                    (\<lambda>idx. (\<Sum>s\<leftarrow>[0..<S]. (get G (s # idx) - get Gmu idx)\<^sup>2) / real S)"
    unfolding Gvar_def
    by (rule tensor_of_cong)
       (auto simp: tf_square_def tf_unop_def d_def power2_eq_square
             intro!: arg_cong[where f = sum_list] map_cong
             arg_cong2[where f = "(/)"])
  have one: "S = 1 \<longrightarrow> Gvar = tensor_of rest (\<lambda>idx. 0)"
  proof
    assume s: "S = 1"
    show "Gvar = tensor_of rest (\<lambda>idx. 0)"
      unfolding gv
      by (rule tensor_of_cong) (simp add: s Gmu_def)
  qed
  show ?thesis
    using res gv one by (intro exI[of _ Gmu] exI[of _ Gvar]) (simp add: Gmu_def)
qed

text \<open>One sample of two values, and two samples of two values.\<close>

theorem estimate_mu_var_moments_witness:
  "(\<exists>Gmu Gvar. estimate_mu_var (Gaussian_init 1 True) \<lparr>shape = [1, 2], vals = [3, 5]\<rparr> =
        Inr (Gmu, Gvar) \<and>
      Gmu = \<lparr>shape = [2], vals = [3, 5]\<rparr> \<and> Gvar = \<lparr>shape = [2], vals = [0, 0]\<rparr>) \<and>
   (\<exists>Gmu Gvar. estimate_mu_var (Gaussian_init 2 True)
        \<lparr>shape = [2, 2], vals = [1, 2, 3, 6]\<rparr> = Inr (Gmu, Gvar) \<and>
      Gmu = \<lparr>shape = [2], vals = [2, 4]\<rparr> \<and> Gvar = \<lparr>shape = [2], vals = [1, 4]\<rparr>)"
  using estimate_mu_var_moments[of "\<lparr>shape = [1, 2], vals = [3, 5]\<rparr>" 1 "[2]"
      "Gaussian_init 1 True"]
    estimate_mu_var_moments[of "\<lparr>shape = [2, 2], vals = [1, 2, 3, 6]\<rparr>" 2 "[2]"
      "Gaussian_init 2 True"]
  by (auto simp: eval_simps power2_eq_square)

text \<open>
  Claim C7. The base class declares \<open>transform\<close> and \<open>logp\<close> and both raise
  \<open>NotImplementedError\<close>. A likelihood of a class that does not define \<open>transform\<close> (the
  base class and Poisson) gets that error from \<open>self.transform\<close>, and one of a class that
  does not define \<open>logp\<close> (the base class) gets it from \<open>self.logp\<close>, called with the three
  arguments the base class declares; no default value is returned.
\<close>

theorem base_methods_unimplemented:
  "StochasticLikelihood_transform self F = Inl NotImplementedError \<and>
   StochasticLikelihood_logp self [Gmu, Gvar, Y] = Inl NotImplementedError \<and>
   (cls_of self \<noteq> Gaussian \<longrightarrow> transform self F = Inl NotImplementedError) \<and>
   (cls_of self = StochasticLikelihood \<longrightarrow>
      logp ext self [Gmu, Gvar, Y] = Inl NotImplementedError)"
  by (cases "cls_of self")
     (simp_all add: StochasticLikelihood_transform_def StochasticLikelihood_logp_def
        transform_def logp_def)

theorem base_methods_unimplemented_witness:
  "transform (StochasticLikelihood_init 20) \<lparr>shape = [1, 1], vals = [0]\<rparr> =
     Inl NotImplementedError \<and>
   transform (Poisson_init exp 20 True) \<lparr>shape = [1, 1], vals = [0]\<rparr> =
     Inl NotImplementedError \<and>
   logp gpflow_stub (StochasticLikelihood_init 20)
     [\<lparr>shape = [1, 1], vals = [0]\<rparr>, \<lparr>shape = [1, 1], vals = [1]\<rparr>,
      \<lparr>shape = [1, 1], vals = [0]\<rparr>] =
     Inl NotImplementedError"
  using base_methods_unimplemented[of "StochasticLikelihood_init 20"
      "\<lparr>shape = [1, 1], vals = [0]\<rparr>" "\<lparr>shape = [1, 1], vals = [0]\<rparr>"
      "\<lparr>shape = [1, 1], vals = [1]\<rparr>" "\<lparr>shape = [1, 1], vals = [0]\<rparr>" gpflow_stub]
    base_methods_unimplemented[of "Poisson_init exp 20 True"
      "\<lparr>shape = [1, 1], vals = [0]\<rparr>" "\<lparr>shape = [1, 1], vals = [0]\<rparr>"
      "\<lparr>shape = [1, 1], vals = [1]\<rparr>" "\<lparr>shape = [1, 1], vals = [0]\<rparr>" gpflow_stub]
  by (simp add: Poisson_init_def StochasticLikelihood_init_def)



text \<open>
  Claim C9. The claim says that a Poisson likelihood with \<open>exact = False\<close> raises
  \<open>NotImplementedError\<close> from \<open>self.transform\<close>. Poisson indeed inherits the unimplemented
  \<open>transform\<close>, but the call never reaches it: for every input the generic path fails
  before line 55 with a TensorFlow shape error (for a factor \<open>L\<close> of rank 3, the one of
  \<open>tf.tile\<close> at line 46), so the error raised is not \<open>NotImplementedError\<close>.
\<close>

theorem poisson_stochastic_path_raises:
  assumes "cls_of self = Poisson" "exact self = Some False" "invlink self = Some f"
  shows "(\<exists>s. fst (stochastic_expectations ext self g Fmu L Y) = Inl (ValueError s)) \<and>
         fst (stochastic_expectations ext self g Fmu L Y) \<noteq> Inl NotImplementedError \<and>
         (length (shape L) = 3 \<longrightarrow>
            fst (stochastic_expectations ext self g Fmu L Y) = Inl (ValueError ''tile'')) \<and>
         transform self X = Inl NotImplementedError"
proof -
  have eq: "stochastic_expectations ext self g Fmu L Y =
        StochasticLikelihood_stochastic_expectations ext self g (tf_unop f Fmu) L Y"
    using assms
    by (simp add: dispatch_Poisson Poisson_stochastic_expectations_def attr_exact_def
        attr_invlink_def)
  obtain s where s: "fst (stochastic_expectations ext self g Fmu L Y) = Inl (ValueError s)"
    unfolding eq using generic_never_returns by blast
  have "length (shape L) = 3 \<longrightarrow>
            fst (stochastic_expectations ext self g Fmu L Y) = Inl (ValueError ''tile'')"
  proof
    assume "length (shape L) = 3"
    then obtain A B C where l: "shape L = [A, B, C]"
      using rank3_shape by blast
    show "fst (stochastic_expectations ext self g Fmu L Y) = Inl (ValueError ''tile'')"
      unfolding eq by (simp add: generic_rank3[OF l])
  qed
  moreover have "transform self X = Inl NotImplementedError"
    using assms(1) by (simp add: transform_def StochasticLikelihood_transform_def)
  ultimately show ?thesis using s by auto
qed

theorem poisson_stochastic_path_raises_witness:
  "fst (stochastic_expectations gpflow_stub (Poisson_init exp 20 False) rng0
     \<lparr>shape = [1, 1], vals = [0]\<rparr> \<lparr>shape = [1, 1, 1], vals = [1]\<rparr>
     \<lparr>shape = [1, 1], vals = [0]\<rparr>) =
   Inl (ValueError ''tile'') \<and>
   transform (Poisson_init exp 20 False) \<lparr>shape = [1, 1], vals = [0]\<rparr> =
   Inl NotImplementedError"
  using poisson_stochastic_path_raises[of "Poisson_init exp 20 False" exp gpflow_stub rng0
      "\<lparr>shape = [1, 1], vals = [0]\<rparr>" "\<lparr>shape = [1, 1, 1], vals = [1]\<rparr>"
      "\<lparr>shape = [1, 1], vals = [0]\<rparr>" "\<lparr>shape = [1, 1], vals = [0]\<rparr>"]
  by (simp add: Poisson_init_def StochasticLikelihood_init_def)



end
